theory Spec2Isabelle
  imports Complex_Main "HOL-Library.AList"
begin

section \<open>Operator names\<close>

text \<open>
  \<^verbatim>\<open>op_name_to_lower\<close> (backend.py, line 178) is
  \<^verbatim>\<open>re.sub('(?<!^)(?=[A-Z])', '_', name).lower()\<close>.
  The pattern matches the empty string at every position \<open>p\<close> that is not the start of
  the string (the look-behind \<^verbatim>\<open>(?<!^)\<close>) and that is followed by one of the 26
  letters \<^verbatim>\<open>A\<close> to \<^verbatim>\<open>Z\<close> (the look-ahead); \<^verbatim>\<open>re.sub\<close> puts an underscore at
  each such position.

  A name is a string of Python 3, and a character of the model is a code point below 256
  (the ASCII and Latin-1 characters). On these \<^verbatim>\<open>str.lower\<close> works character by
  character: it adds 32 to the code of each uppercase letter, and the uppercase letters
  are \<^verbatim>\<open>A\<close> to \<^verbatim>\<open>Z\<close> (65 to 90) and the Latin-1 letters 192 to 214 and 216 to 222.
  Code points from 256 on are not values of the type.
\<close>

definition is_upper :: "char \<Rightarrow> bool" where
  "is_upper c = (65 \<le> (of_char c :: nat) \<and> (of_char c :: nat) \<le> 90)"

definition is_cased_upper :: "char \<Rightarrow> bool" where
  "is_cased_upper c =
     (let n = of_char c :: nat
      in (65 \<le> n \<and> n \<le> 90) \<or> (192 \<le> n \<and> n \<le> 214) \<or> (216 \<le> n \<and> n \<le> 222))"

definition lower_char :: "char \<Rightarrow> char" where
  "lower_char c = (if is_cased_upper c then char_of ((of_char c :: nat) + 32) else c)"

definition lower :: "string \<Rightarrow> string" where
  "lower str = map lower_char str"

definition matches_at :: "string \<Rightarrow> nat \<Rightarrow> bool" where
  "matches_at str p = (p \<noteq> 0 \<and> p < length str \<and> is_upper (str ! p))"

definition re_sub_underscore :: "string \<Rightarrow> string" where
  "re_sub_underscore str =
     concat (map (\<lambda>p. (if matches_at str p then ''_'' else []) @ [str ! p]) [0..<length str])"

definition op_name_to_lower :: "string \<Rightarrow> string" where
  "op_name_to_lower str = lower (re_sub_underscore str)"







section \<open>Python values, errors and dictionaries\<close>

text \<open>
  Every \<^verbatim>\<open>raise\<close> of the source and every exception of a Python built-in it uses
  (a missing dictionary key, a list index out of range, an unhashable key, a failed
  \<^verbatim>\<open>assert\<close>, a call with the wrong number of arguments) is a value of the model:
  a function that can raise returns \<open>py_error + 'a\<close>, with \<open>Inl\<close> the exception.
\<close>

datatype py_error = ValueError | KeyError | IndexError | TypeError | AssertionError

definition bind :: "py_error + 'a \<Rightarrow> ('a \<Rightarrow> py_error + 'b) \<Rightarrow> py_error + 'b" where
  "bind m g = (case m of Inl e \<Rightarrow> Inl e | Inr v \<Rightarrow> g v)"

text \<open>A list comprehension whose element expression can raise stops at the first exception.\<close>

fun map_try :: "('a \<Rightarrow> py_error + 'b) \<Rightarrow> 'a list \<Rightarrow> py_error + 'b list" where
  "map_try g [] = Inr []"
| "map_try g (x # xs) = bind (g x) (\<lambda>y. bind (map_try g xs) (\<lambda>ys. Inr (y # ys)))"

text \<open>
  The embedded \<^verbatim>\<open>TensorProto\<close> of an attribute is handed on as it is (dimensions,
  element type, raw bytes); the target types of TensorFlow are an enumeration.
\<close>

datatype tensor_proto = TensorProto "int list" int string

datatype tf_dtype =
    tf_float32 | tf_uint8 | tf_int8 | tf_uint16 | tf_int16 | tf_int32 | tf_int64 | tf_bool
  | tf_float16 | tf_float64 | tf_complex64 | tf_complex128

text \<open>
  The Python objects that attribute values are or become. Floats are exact reals: the
  translation layer hands them on and never computes with them.
\<close>

datatype py_value =
    PyNone
  | PyBool bool
  | PyInt int
  | PyFloat real
  | PyStr string
  | PyList "py_value list"
  | PyProto tensor_proto
  | PyDType tf_dtype

text \<open>
  A dictionary is an association list with distinct keys in insertion order: assigning to
  a key that is present replaces its value in place, assigning to a new key appends it
  (\<^const>\<open>AList.update\<close>). \<^verbatim>\<open>dict(pairs)\<close> assigns the pairs from left to right.
  Iteration follows the insertion order, as in Python 3.7 and later; before that the order
  is arbitrary, and the only thing here that depends on it is which of two entries survives
  when two pairs of \<^verbatim>\<open>dict(pairs)\<close> have one key.
\<close>

type_synonym ('k, 'v) dict = "('k \<times> 'v) list"

definition keys :: "('k, 'v) dict \<Rightarrow> 'k list" where
  "keys d = map fst d"

definition dict_get :: "('k, 'v) dict \<Rightarrow> 'k \<Rightarrow> py_error + 'v" where
  "dict_get d k = (case map_of d k of None \<Rightarrow> Inl KeyError | Some v \<Rightarrow> Inr v)"

definition py_dict :: "('k \<times> 'v) list \<Rightarrow> ('k, 'v) dict" where
  "py_dict pairs = foldl (\<lambda>d (k, v). AList.update k v d) [] pairs"

definition list_get :: "'a list \<Rightarrow> nat \<Rightarrow> py_error + 'a" where
  "list_get xs n = (if n < length xs then Inr (xs ! n) else Inl IndexError)"

section \<open>Attributes\<close>

text \<open>
  An \<^verbatim>\<open>AttributeProto\<close> has a name, four optional singular fields (\<^verbatim>\<open>HasField\<close> is
  true of a field that is set) and three repeated fields (an empty one is falsy).
\<close>

record AttributeProto =
  attr_name :: string
  attr_f :: "real option"
  attr_i :: "int option"
  attr_s :: "string option"
  attr_t :: "tensor_proto option"
  attr_floats :: "real list"
  attr_ints :: "int list"
  attr_strings :: "string list"

definition convertAttributeProto :: "AttributeProto \<Rightarrow> py_error + py_value" where
  "convertAttributeProto onnx_arg =
     (if attr_f onnx_arg \<noteq> None then Inr (PyFloat (the (attr_f onnx_arg)))
      else if attr_i onnx_arg \<noteq> None then Inr (PyInt (the (attr_i onnx_arg)))
      else if attr_s onnx_arg \<noteq> None then Inr (PyStr (the (attr_s onnx_arg)))
      else if attr_t onnx_arg \<noteq> None then Inr (PyProto (the (attr_t onnx_arg)))
      else if attr_floats onnx_arg \<noteq> [] then Inr (PyList (map PyFloat (attr_floats onnx_arg)))
      else if attr_ints onnx_arg \<noteq> [] then Inr (PyList (map PyInt (attr_ints onnx_arg)))
      else if attr_strings onnx_arg \<noteq> [] then Inr (PyList (map PyStr (attr_strings onnx_arg)))
      else Inl ValueError)"

text \<open>
  The description in words: the seven fields in their fixed order, each with the Python
  object it stands for when it is populated; the result is the first populated one.
\<close>

definition repeated :: "('a \<Rightarrow> py_value) \<Rightarrow> 'a list \<Rightarrow> py_value option" where
  "repeated wrap xs = (if xs = [] then None else Some (PyList (map wrap xs)))"

definition field_values :: "AttributeProto \<Rightarrow> py_value option list" where
  "field_values a =
     [map_option PyFloat (attr_f a), map_option PyInt (attr_i a),
      map_option PyStr (attr_s a), map_option PyProto (attr_t a),
      repeated PyFloat (attr_floats a), repeated PyInt (attr_ints a),
      repeated PyStr (attr_strings a)]"

definition first_populated :: "AttributeProto \<Rightarrow> py_value option" where
  "first_populated a = (case List.map_filter id (field_values a) of [] \<Rightarrow> None | v # _ \<Rightarrow> Some v)"

definition unpopulated :: "AttributeProto \<Rightarrow> bool" where
  "unpopulated a =
     (attr_f a = None \<and> attr_i a = None \<and> attr_s a = None \<and> attr_t a = None \<and>
      attr_floats a = [] \<and> attr_ints a = [] \<and> attr_strings a = [])"

text \<open>\<^verbatim>\<open>OnnxAttributes.from_onnx\<close>: the loop assigns \<^verbatim>\<open>d[arg.name]\<close> for each argument in turn.\<close>

fun from_onnx_loop ::
  "(string, py_value) dict \<Rightarrow> AttributeProto list \<Rightarrow> py_error + (string, py_value) dict" where
  "from_onnx_loop d [] = Inr d"
| "from_onnx_loop d (arg # args) =
     bind (convertAttributeProto arg) (\<lambda>v. from_onnx_loop (AList.update (attr_name arg) v d) args)"

definition from_onnx :: "AttributeProto list \<Rightarrow> py_error + (string, py_value) dict" where
  "from_onnx args = from_onnx_loop [] args"

text \<open>
  The description in words: the value of a name is the converted last attribute of that
  name.
\<close>

definition last_named :: "AttributeProto list \<Rightarrow> string \<Rightarrow> py_value option" where
  "last_named args k =
     (case List.find (\<lambda>a. attr_name a = k) (rev args) of
        None \<Rightarrow> None
      | Some a \<Rightarrow> (case convertAttributeProto a of Inl e \<Rightarrow> None | Inr v \<Rightarrow> Some v))"

section \<open>Nodes\<close>


text \<open>
  \<^verbatim>\<open>OnnxNode\<close>: \<^verbatim>\<open>consumed_inputs\<close> is \<open>None\<close> for Python's \<^verbatim>\<open>None\<close>.
  \<^verbatim>\<open>attrs.pop("consumed_inputs", None)\<close> returns the value of the key, or \<^verbatim>\<open>None\<close>, and
  removes the key from the dictionary.
\<close>

record OnnxNode =
  name :: string
  op_type :: string
  attrs :: "(string, py_value) dict"
  consumed_inputs :: "py_value option"
  inputs :: "string list"
  outputs :: "string list"



section \<open>Operator invocations\<close>

text \<open>
  The translation calls functions of TensorFlow and numpy, which are not part of the
  repository. A call is recorded, not executed: an invocation is the function called, its
  positional arguments and its keyword arguments, and an argument is a Python value, a
  numpy array (shape and elements in row-major order), a list of tensors, or the result of
  another invocation. Exceptions raised inside a library call are outside the model.
  The Python operators \<^verbatim>\<open>+\<close>, \<^verbatim>\<open>-\<close>, \<^verbatim>\<open>*\<close> and \<^verbatim>\<open>abs\<close> on tensors are the library's
  \<^verbatim>\<open>add\<close>, \<^verbatim>\<open>subtract\<close>, \<^verbatim>\<open>multiply\<close> and \<^verbatim>\<open>abs\<close>. \<^verbatim>\<open>warnings.warn\<close> has no effect on
  what a handler returns and is left out.
\<close>

datatype library_function =
    tf_nn_relu | tf_pow | tf_random_normal | tf_random_uniform | tf_reciprocal
  | tf_reduce_logsumexp | tf_reduce_max | tf_reduce_mean | tf_reduce_min | tf_reduce_prod
  | tf_reduce_sum | tf_sigmoid | tf_nn_softmax | tf_sqrt | tf_squeeze | tf_tanh | tf_transpose
  | tf_constant | tf_pad | tf_shape | tf_reshape | tf_nn_selu | tf_rank | tf_expand_dims
  | tf_scatter_nd | tf_slice | tf_split | tf_subtract | tf_stack
  | tf_abs | tf_add | tf_multiply
  | np_array | np_reshape | np_astype_int32

datatype ndarray = NdArray "nat list" "real list"

datatype expr =
    PyConst py_value
  | NpConst ndarray
  | TensorList "expr list"
  | Call library_function "expr list" "(string \<times> expr) list"

section \<open>The tables of the backend\<close>

definition onnx_tf_attribute_map :: "(string, string) dict" where
  "onnx_tf_attribute_map =
     [(''scale'', ''stddev''),
      (''high'', ''maxval''),
      (''low'', ''minval''),
      (''axes'', ''axis''),
      (''keepdims'', ''keep_dims''),
      (''axis'', ''dim'')]"

definition onnx_tf_op_map :: "(string, library_function) dict" where
  "onnx_tf_op_map =
     [(''relu'', tf_nn_relu),
      (''pow'', tf_pow),
      (''random_normal'', tf_random_normal),
      (''random_uniform'', tf_random_uniform),
      (''reciprocal'', tf_reciprocal),
      (''reduce_log_sum_exp'', tf_reduce_logsumexp),
      (''reduce_max'', tf_reduce_max),
      (''reduce_mean'', tf_reduce_mean),
      (''reduce_min'', tf_reduce_min),
      (''reduce_prod'', tf_reduce_prod),
      (''reduce_sum'', tf_reduce_sum),
      (''sigmoid'', tf_sigmoid),
      (''softmax'', tf_nn_softmax),
      (''sqrt'', tf_sqrt),
      (''squeeze'', tf_squeeze),
      (''tanh'', tf_tanh),
      (''transpose'', tf_transpose)]"

text \<open>
  The element types of \<^verbatim>\<open>TensorProto\<close> are integers; their numbers are those of
  \<^verbatim>\<open>onnx.proto\<close>, which is not part of the repository. \<^verbatim>\<open>STRING\<close> (8), \<^verbatim>\<open>UINT32\<close> (12)
  and \<^verbatim>\<open>UINT64\<close> (13) have no entry in the table of the source.
\<close>

definition TensorProto_FLOAT :: int where "TensorProto_FLOAT = 1"
definition TensorProto_UINT8 :: int where "TensorProto_UINT8 = 2"
definition TensorProto_INT8 :: int where "TensorProto_INT8 = 3"
definition TensorProto_UINT16 :: int where "TensorProto_UINT16 = 4"
definition TensorProto_INT16 :: int where "TensorProto_INT16 = 5"
definition TensorProto_INT32 :: int where "TensorProto_INT32 = 6"
definition TensorProto_INT64 :: int where "TensorProto_INT64 = 7"
definition TensorProto_BOOL :: int where "TensorProto_BOOL = 9"
definition TensorProto_FLOAT16 :: int where "TensorProto_FLOAT16 = 10"
definition TensorProto_DOUBLE :: int where "TensorProto_DOUBLE = 11"
definition TensorProto_COMPLEX64 :: int where "TensorProto_COMPLEX64 = 14"
definition TensorProto_COMPLEX128 :: int where "TensorProto_COMPLEX128 = 15"

definition tensor_type_to_tf_type :: "(int, tf_dtype) dict" where
  "tensor_type_to_tf_type =
     [(TensorProto_FLOAT, tf_float32),
      (TensorProto_UINT8, tf_uint8),
      (TensorProto_INT8, tf_int8),
      (TensorProto_UINT16, tf_uint16),
      (TensorProto_INT16, tf_int16),
      (TensorProto_INT32, tf_int32),
      (TensorProto_INT64, tf_int64),
      (TensorProto_BOOL, tf_bool),
      (TensorProto_FLOAT16, tf_float16),
      (TensorProto_DOUBLE, tf_float64),
      (TensorProto_COMPLEX64, tf_complex64),
      (TensorProto_COMPLEX128, tf_complex128)]"

text \<open>
  \<^verbatim>\<open>cls.tensor_type_to_tf_type[x]\<close> for a Python object \<open>x\<close>. The keys are integers. A
  float or a Boolean equal to a key hashes and compares as that key; a list and a protobuf
  message are unhashable (\<^const>\<open>TypeError\<close>); any other object is not a key
  (\<^const>\<open>KeyError\<close>).
\<close>

definition tensor_type_to_tf_type_getitem :: "py_value \<Rightarrow> py_error + py_value" where
  "tensor_type_to_tf_type_getitem x =
     (case x of
        PyInt n \<Rightarrow> bind (dict_get tensor_type_to_tf_type n) (\<lambda>ty. Inr (PyDType ty))
      | PyFloat r \<Rightarrow>
          (if r = of_int \<lfloor>r\<rfloor>
           then bind (dict_get tensor_type_to_tf_type \<lfloor>r\<rfloor>) (\<lambda>ty. Inr (PyDType ty))
           else Inl KeyError)
      | PyBool b \<Rightarrow>
          bind (dict_get tensor_type_to_tf_type (if b then 1 else 0)) (\<lambda>ty. Inr (PyDType ty))
      | PyList _ \<Rightarrow> Inl TypeError
      | PyProto _ \<Rightarrow> Inl TypeError
      | _ \<Rightarrow> Inl KeyError)"

text \<open>
  \<^verbatim>\<open>bool(x)\<close>: a number is true when it is not zero, a string or a list when it is not
  empty, \<^verbatim>\<open>None\<close> is false, and an object that defines neither a truth value nor a length
  (a protobuf message, a TensorFlow type) is true.
\<close>

definition py_bool :: "py_value \<Rightarrow> bool" where
  "py_bool x =
     (case x of
        PyNone \<Rightarrow> False
      | PyBool b \<Rightarrow> b
      | PyInt n \<Rightarrow> n \<noteq> 0
      | PyFloat r \<Rightarrow> r \<noteq> 0
      | PyStr str \<Rightarrow> str \<noteq> []
      | PyList xs \<Rightarrow> xs \<noteq> []
      | PyProto _ \<Rightarrow> True
      | PyDType _ \<Rightarrow> True)"

text \<open>\<^verbatim>\<open>len(x)\<close>: defined on strings and lists.\<close>

definition py_len :: "py_value \<Rightarrow> py_error + nat" where
  "py_len x =
     (case x of
        PyStr str \<Rightarrow> Inr (length str)
      | PyList xs \<Rightarrow> Inr (length xs)
      | _ \<Rightarrow> Inl TypeError)"

definition attr_translator :: "(string, py_value \<Rightarrow> py_error + py_value) dict" where
  "attr_translator =
     [(''dtype'', \<lambda>x. tensor_type_to_tf_type_getitem x),
      (''keepdims'', \<lambda>x. Inr (PyBool (py_bool x)))]"

section \<open>The translation rules\<close>

text \<open>
  \<^verbatim>\<open>handle_trivial\<close> (lines 194 to 215): the attribute values are translated, the
  identity map of the attribute names is built and modified by
  \<^const>\<open>onnx_tf_attribute_map\<close>, the names are substituted, the inputs are looked up, and
  the mapped function is called.
\<close>

definition handle_trivial :: "OnnxNode \<Rightarrow> (string, expr) dict \<Rightarrow> py_error + expr list" where
  "handle_trivial node input_dict =
     bind (map_try
             (\<lambda>x. if x \<in> set (keys attr_translator)
                  then bind (dict_get attr_translator x) (\<lambda>translate.
                       bind (dict_get (attrs node) x) (\<lambda>v.
                       bind (translate v) (\<lambda>w. Inr (x, w))))
                  else bind (dict_get (attrs node) x) (\<lambda>v. Inr (x, v)))
             (keys (attrs node))) (\<lambda>translated.
     let attrs1 = py_dict translated;
         attr_map0 = py_dict (map (\<lambda>x. (x, x)) (keys (attrs node)));
         attr_map = py_dict (map (\<lambda>x. (x, if x \<in> set (keys onnx_tf_attribute_map)
                                           then the (map_of onnx_tf_attribute_map x) else x))
                               (keys attr_map0))
     in
     bind (map_try (\<lambda>(x, y). bind (dict_get attr_map x) (\<lambda>x'. Inr (x', y))) attrs1) (\<lambda>renamed.
     let attrs2 = py_dict renamed in
     bind (map_try (dict_get input_dict) (inputs node)) (\<lambda>ins.
     bind (dict_get onnx_tf_op_map (op_name_to_lower (op_type node))) (\<lambda>fn.
     Inr [Call fn ins (map (\<lambda>(k, v). (k, PyConst v)) attrs2)]))))"

text \<open>The description in words: the name and the value an attribute is passed under.\<close>

definition tf_attr_name :: "string \<Rightarrow> string" where
  "tf_attr_name k = (case map_of onnx_tf_attribute_map k of Some k' \<Rightarrow> k' | None \<Rightarrow> k)"

definition tf_attr_value :: "string \<Rightarrow> py_value \<Rightarrow> py_error + py_value" where
  "tf_attr_value k v =
     (if k = ''dtype'' then tensor_type_to_tf_type_getitem v
      else if k = ''keepdims'' then Inr (PyBool (py_bool v))
      else Inr v)"

definition input_at :: "OnnxNode \<Rightarrow> (string, expr) dict \<Rightarrow> nat \<Rightarrow> py_error + expr" where
  "input_at node input_dict n = bind (list_get (inputs node) n) (\<lambda>a. dict_get input_dict a)"

definition handle_p_relu :: "OnnxNode \<Rightarrow> (string, expr) dict \<Rightarrow> py_error + expr list" where
  "handle_p_relu node input_dict =
     bind (input_at node input_dict 0) (\<lambda>x.
     bind (input_at node input_dict 1) (\<lambda>slope.
     let pos = Call tf_nn_relu [x] [];
         neg = Call tf_multiply
                 [Call tf_multiply [slope, Call tf_subtract [x, Call tf_abs [x] []] []] [],
                  PyConst (PyFloat 0.5)] []
     in Inr [Call tf_add [pos, neg] []]))"

definition handle_pad :: "OnnxNode \<Rightarrow> (string, expr) dict \<Rightarrow> py_error + expr list" where
  "handle_pad node input_dict =
     bind (dict_get (attrs node) ''mode'') (\<lambda>mode.
     bind (dict_get (attrs node) ''value'') (\<lambda>val.
     bind (dict_get (attrs node) ''paddings'') (\<lambda>paddings.
     bind (py_len paddings) (\<lambda>len.
     let num_dim = int len div 2;
         padding = Call tf_constant
                     [Call np_astype_int32
                        [Call np_reshape
                           [Call np_array [PyConst paddings] [],
                            PyConst (PyList [PyInt num_dim, PyInt 2])] []] []] []
     in
     bind (input_at node input_dict 0) (\<lambda>x.
     Inr [Call tf_pad [x, padding, PyConst mode, PyConst PyNone, PyConst val] []])))))"

definition handle_random_normal_like ::
  "OnnxNode \<Rightarrow> (string, expr) dict \<Rightarrow> py_error + expr list" where
  "handle_random_normal_like node input_dict =
     bind (input_at node input_dict 0) (\<lambda>x.
     let shape = Call tf_shape [x] [] in
     bind (dict_get (attrs node) ''mean'') (\<lambda>mean.
     bind (dict_get (attrs node) ''scale'') (\<lambda>stddev.
     bind (dict_get (attrs node) ''dtype'') (\<lambda>ty.
     bind (tensor_type_to_tf_type_getitem ty) (\<lambda>dtype.
     bind (if ''seed'' \<in> set (keys (attrs node)) then dict_get (attrs node) ''seed''
           else Inr PyNone) (\<lambda>seed.
     Inr [Call tf_random_normal
            [shape, PyConst mean, PyConst stddev, PyConst dtype, PyConst seed] []]))))))"

definition handle_random_uniform_like ::
  "OnnxNode \<Rightarrow> (string, expr) dict \<Rightarrow> py_error + expr list" where
  "handle_random_uniform_like node input_dict =
     bind (input_at node input_dict 0) (\<lambda>x.
     let shape = Call tf_shape [x] [] in
     bind (dict_get (attrs node) ''low'') (\<lambda>minval.
     bind (dict_get (attrs node) ''high'') (\<lambda>maxval.
     bind (dict_get (attrs node) ''dtype'') (\<lambda>ty.
     bind (tensor_type_to_tf_type_getitem ty) (\<lambda>dtype.
     bind (if ''seed'' \<in> set (keys (attrs node)) then dict_get (attrs node) ''seed''
           else Inr PyNone) (\<lambda>seed.
     Inr [Call tf_random_uniform
            [shape, PyConst minval, PyConst maxval, PyConst dtype, PyConst seed] []]))))))"

definition handle_reshape :: "OnnxNode \<Rightarrow> (string, expr) dict \<Rightarrow> py_error + expr list" where
  "handle_reshape node input_dict =
     bind (input_at node input_dict 0) (\<lambda>tensor.
     bind (dict_get (attrs node) ''shape'') (\<lambda>v.
     let shape = Call tf_constant [PyConst v] [] in
     Inr [Call tf_reshape [tensor, shape] []]))"

definition handle_selu :: "OnnxNode \<Rightarrow> (string, expr) dict \<Rightarrow> py_error + expr list" where
  "handle_selu node input_dict =
     bind (input_at node input_dict 0) (\<lambda>x. Inr [Call tf_nn_selu [x] []])"

definition handle_slice :: "OnnxNode \<Rightarrow> (string, expr) dict \<Rightarrow> py_error + expr list" where
  "handle_slice node input_dict =
     bind (input_at node input_dict 0) (\<lambda>x0.
     let shape = Call tf_reshape
                   [Call tf_rank [x0] [], Call tf_constant [PyConst (PyList [PyInt 1])] []] []
     in
     bind (input_at node input_dict 1) (\<lambda>x1.
     let indices = Call tf_expand_dims [x1, PyConst (PyInt (- 1))] [] in
     bind (input_at node input_dict 2) (\<lambda>x2.
     let begin = Call tf_scatter_nd [indices, x2, shape] [] in
     bind (input_at node input_dict 3) (\<lambda>x3.
     let end = Call tf_scatter_nd [indices, x3, shape] [];
         size = Call tf_subtract [end, begin] []
     in
     bind (input_at node input_dict 0) (\<lambda>x.
     Inr [Call tf_slice [x, begin, size] []])))))"

definition handle_split :: "OnnxNode \<Rightarrow> (string, expr) dict \<Rightarrow> py_error + expr list" where
  "handle_split node input_dict =
     bind (if ''split'' \<in> set (keys (attrs node))
           then bind (dict_get (attrs node) ''split'') (\<lambda>v. Inr (Call tf_constant [PyConst v] []))
           else input_at node input_dict 1) (\<lambda>split.
     bind (dict_get (attrs node) ''axis'') (\<lambda>axis.
     bind (input_at node input_dict 0) (\<lambda>x.
     Inr [Call tf_split [x, split, PyConst axis] []])))"

definition handle_sub :: "OnnxNode \<Rightarrow> (string, expr) dict \<Rightarrow> py_error + expr list" where
  "handle_sub node input_dict =
     bind (input_at node input_dict 0) (\<lambda>x.
     bind (input_at node input_dict 1) (\<lambda>y.
     bind (dict_get (attrs node) ''broadcast'') (\<lambda>broadcast.
     Inr [Call tf_subtract [x, y] []])))"

definition handle_sum :: "OnnxNode \<Rightarrow> (string, expr) dict \<Rightarrow> py_error + expr list" where
  "handle_sum node input_dict =
     bind (map_try (dict_get input_dict) (inputs node)) (\<lambda>vals.
     Inr [Call tf_reduce_sum [Call tf_stack [TensorList vals] []]
            [(''axis'', PyConst (PyInt 0))]])"

text \<open>
  \<^verbatim>\<open>dir(cls)\<close> and \<^verbatim>\<open>getattr(cls, handler_name)\<close>: the names looked up start with
  \<^verbatim>\<open>handle_\<close>, and the attributes of the class (and of the base class \<^verbatim>\<open>Backend\<close>)
  with such a name are the eleven methods of the source.
\<close>

definition handlers ::
  "(string, OnnxNode \<Rightarrow> (string, expr) dict \<Rightarrow> py_error + expr list) dict" where
  "handlers =
     [(''handle_trivial'', handle_trivial),
      (''handle_p_relu'', handle_p_relu),
      (''handle_pad'', handle_pad),
      (''handle_random_normal_like'', handle_random_normal_like),
      (''handle_random_uniform_like'', handle_random_uniform_like),
      (''handle_reshape'', handle_reshape),
      (''handle_selu'', handle_selu),
      (''handle_slice'', handle_slice),
      (''handle_split'', handle_split),
      (''handle_sub'', handle_sub),
      (''handle_sum'', handle_sum)]"

text \<open>
  \<^verbatim>\<open>_onnx_node_to_tensorflow_op\<close> (lines 182 to 191). A Python function that reaches
  its end returns \<^verbatim>\<open>None\<close>: the result \<open>Inr None\<close>.
\<close>

definition onnx_node_to_tensorflow_op ::
  "OnnxNode \<Rightarrow> (string, expr) dict \<Rightarrow> py_error + expr list option" where
  "onnx_node_to_tensorflow_op node input_dict =
     (let op_name_lowered = op_name_to_lower (op_type node) in
      if op_name_lowered \<in> set (keys onnx_tf_op_map)
      then bind (handle_trivial node input_dict) (\<lambda>ops. Inr (Some ops))
      else
        let handler_name = ''handle_'' @ op_name_lowered in
        if handler_name \<in> set (keys handlers)
        then bind (dict_get handlers handler_name) (\<lambda>method_to_call.
             bind (method_to_call node input_dict) (\<lambda>ops. Inr (Some ops)))
        else Inr None)"

section \<open>Running a node\<close>











section \<open>The values of invocations\<close>

text \<open>
  What an invocation evaluates to is decided by the runtime, not by the repository. The
  claims about \<^verbatim>\<open>PRelu\<close> and \<^verbatim>\<open>Sum\<close> are about values, so the operators these two rules
  call are given their documented meaning on arrays of exact real numbers (rounding is
  outside the model): \<^verbatim>\<open>tf.constant\<close> is the array it is given, \<^verbatim>\<open>tf.nn.relu\<close> and
  \<^verbatim>\<open>tf.abs\<close> work element by element, \<^verbatim>\<open>add\<close>, \<^verbatim>\<open>subtract\<close> and \<^verbatim>\<open>multiply\<close> work
  element by element on arrays of one shape or with a scalar operand (a Python number is a
  scalar), \<^verbatim>\<open>tf.stack\<close> puts arrays of one shape in a new first axis and raises
  \<^const>\<open>ValueError\<close> when the shapes differ, and \<^verbatim>\<open>tf.reduce_sum\<close> with \<^verbatim>\<open>axis=0\<close> adds
  along the first axis. An exception is the value \<open>VError\<close>, and an invocation with an
  argument that raises has the exception of its first such argument as value. The runtime
  raises the exception of \<^verbatim>\<open>tf.stack\<close> when the invocation is built, if the shapes are
  known then; the model, which records the invocation, shows it when the invocation is
  evaluated. Every other invocation has the value \<open>VUnknown\<close>.
\<close>

datatype tf_value =
    VTensor ndarray | VList "tf_value list" | VPy py_value | VError py_error | VUnknown

fun array_shape :: "ndarray \<Rightarrow> nat list" where
  "array_shape (NdArray s d) = s"

fun array_data :: "ndarray \<Rightarrow> real list" where
  "array_data (NdArray s d) = d"

definition relu :: "real \<Rightarrow> real" where
  "relu x = max x 0"

definition as_tensor :: "tf_value \<Rightarrow> ndarray option" where
  "as_tensor v =
     (case v of
        VTensor a \<Rightarrow> Some a
      | VPy (PyFloat c) \<Rightarrow> Some (NdArray [] [c])
      | VPy (PyInt n) \<Rightarrow> Some (NdArray [] [of_int n])
      | _ \<Rightarrow> None)"

definition elementwise :: "(real \<Rightarrow> real) \<Rightarrow> tf_value list \<Rightarrow> tf_value" where
  "elementwise f vals =
     (case map as_tensor vals of
        [Some a] \<Rightarrow> VTensor (NdArray (array_shape a) (map f (array_data a)))
      | _ \<Rightarrow> VUnknown)"

definition elementwise2 :: "(real \<Rightarrow> real \<Rightarrow> real) \<Rightarrow> tf_value list \<Rightarrow> tf_value" where
  "elementwise2 f vals =
     (case map as_tensor vals of
        [Some a, Some b] \<Rightarrow>
          if array_shape a = array_shape b
          then VTensor (NdArray (array_shape a)
                          (map (\<lambda>(x, y). f x y) (zip (array_data a) (array_data b))))
          else if array_shape b = [] \<and> length (array_data b) = 1
          then VTensor (NdArray (array_shape a)
                          (map (\<lambda>x. f x (hd (array_data b))) (array_data a)))
          else if array_shape a = [] \<and> length (array_data a) = 1
          then VTensor (NdArray (array_shape b)
                          (map (\<lambda>y. f (hd (array_data a)) y) (array_data b)))
          else VUnknown
      | _ \<Rightarrow> VUnknown)"

definition stack :: "tf_value list \<Rightarrow> tf_value" where
  "stack vals =
     (case vals of
        [VList vs] \<Rightarrow>
          (case those (map as_tensor vs) of
             Some (a # as) \<Rightarrow>
               if list_all (\<lambda>b. array_shape b = array_shape a) as
               then VTensor (NdArray (length (a # as) # array_shape a)
                               (concat (map array_data (a # as))))
               else VError ValueError
           | _ \<Rightarrow> VUnknown)
      | _ \<Rightarrow> VUnknown)"

definition reduce_sum_axis0 :: "tf_value list \<Rightarrow> tf_value" where
  "reduce_sum_axis0 vals =
     (case map as_tensor vals of
        [Some (NdArray (n # s) d)] \<Rightarrow>
          VTensor (NdArray s
            (map (\<lambda>j. \<Sum>i\<leftarrow>[0..<n]. d ! (i * prod_list s + j)) [0..<prod_list s]))
      | _ \<Rightarrow> VUnknown)"

definition apply_function ::
  "library_function \<Rightarrow> tf_value list \<Rightarrow> (string \<times> tf_value) list \<Rightarrow> tf_value" where
  "apply_function fn vals kwargs =
     (if fn = tf_constant \<and> kwargs = [] then
        (case map as_tensor vals of [Some a] \<Rightarrow> VTensor a | _ \<Rightarrow> VUnknown)
      else if fn = tf_nn_relu \<and> kwargs = [] then elementwise relu vals
      else if fn = tf_abs \<and> kwargs = [] then elementwise abs vals
      else if fn = tf_add \<and> kwargs = [] then elementwise2 (+) vals
      else if fn = tf_subtract \<and> kwargs = [] then elementwise2 (-) vals
      else if fn = tf_multiply \<and> kwargs = [] then elementwise2 (*) vals
      else if fn = tf_stack \<and> kwargs = [] then stack vals
      else if fn = tf_reduce_sum \<and> kwargs = [(''axis'', VPy (PyInt 0))] then reduce_sum_axis0 vals
      else VUnknown)"

definition first_error :: "tf_value list \<Rightarrow> py_error option" where
  "first_error vals =
     (case List.find (\<lambda>v. case v of VError e \<Rightarrow> True | _ \<Rightarrow> False) vals of
        Some (VError e) \<Rightarrow> Some e
      | _ \<Rightarrow> None)"

fun tf_eval :: "expr \<Rightarrow> tf_value" where
  "tf_eval (PyConst v) = VPy v"
| "tf_eval (NpConst a) = VTensor a"
| "tf_eval (TensorList es) =
     (case first_error (map tf_eval es) of
        Some e \<Rightarrow> VError e
      | None \<Rightarrow> VList (map tf_eval es))"
| "tf_eval (Call fn args kwargs) =
     (case first_error (map tf_eval args @ map (\<lambda>kw. tf_eval (snd kw)) kwargs) of
        Some e \<Rightarrow> VError e
      | None \<Rightarrow>
          apply_function fn (map tf_eval args) (map (\<lambda>kw. (fst kw, tf_eval (snd kw))) kwargs))"



definition p_relu :: "real \<Rightarrow> real \<Rightarrow> real" where
  "p_relu x slope = (if 0 \<le> x then x else slope * x)"

section \<open>Example attributes and nodes\<close>

text \<open>
  Attributes as \<^verbatim>\<open>onnx.helper.make_attribute\<close> builds them from a float, an integer and
  a list of integers (an empty list leaves every field unpopulated), and a node as
  \<^verbatim>\<open>onnx.helper.make_node\<close> builds it. They are the concrete inputs of the examples.
\<close>

definition no_fields :: "string \<Rightarrow> AttributeProto" where
  "no_fields k = \<lparr>attr_name = k, attr_f = None, attr_i = None, attr_s = None, attr_t = None,
                  attr_floats = [], attr_ints = [], attr_strings = []\<rparr>"

definition float_attribute :: "string \<Rightarrow> real \<Rightarrow> AttributeProto" where
  "float_attribute k x = (no_fields k)\<lparr>attr_f := Some x\<rparr>"

definition int_attribute :: "string \<Rightarrow> int \<Rightarrow> AttributeProto" where
  "int_attribute k n = (no_fields k)\<lparr>attr_i := Some n\<rparr>"

definition ints_attribute :: "string \<Rightarrow> int list \<Rightarrow> AttributeProto" where
  "ints_attribute k ns = (no_fields k)\<lparr>attr_ints := ns\<rparr>"


definition onnx_node ::
  "string \<Rightarrow> (string, py_value) dict \<Rightarrow> string list \<Rightarrow> string list \<Rightarrow> OnnxNode" where
  "onnx_node ty as ins outs =
     \<lparr>name = [], op_type = ty, attrs = as, consumed_inputs = None, inputs = ins,
      outputs = outs\<rparr>"

definition scalar :: "real \<Rightarrow> expr" where
  "scalar x = Call tf_constant [NpConst (NdArray [] [x])] []"



section \<open>Properties of operator names\<close>





















section \<open>Properties of attribute conversion\<close>

lemma convert_first_populated:
  "convertAttributeProto a =
     (case first_populated a of Some v \<Rightarrow> Inr v | None \<Rightarrow> Inl ValueError)"
  by (cases "attr_f a"; cases "attr_i a"; cases "attr_s a"; cases "attr_t a")
     (simp_all add: convertAttributeProto_def first_populated_def field_values_def
        repeated_def List.map_filter_simps)

lemma convert_error_iff:
  "(convertAttributeProto a = Inl e) = (e = ValueError \<and> unpopulated a)"
  by (auto simp: convertAttributeProto_def unpopulated_def)

lemma convert_populated:
  "\<not> unpopulated a \<Longrightarrow> convertAttributeProto a = Inr (projr (convertAttributeProto a))"
  by (cases "convertAttributeProto a") (auto simp: convert_error_iff)

text \<open>
  Claim C3. \<^const>\<open>convertAttributeProto\<close> returns the value of the first populated field
  in the order \<^verbatim>\<open>f\<close>, \<^verbatim>\<open>i\<close>, \<^verbatim>\<open>s\<close>, \<^verbatim>\<open>t\<close> (the tensor as the proto it is),
  \<^verbatim>\<open>floats\<close>, \<^verbatim>\<open>ints\<close>, \<^verbatim>\<open>strings\<close> (each as a list), and it raises, and then a
  \<^const>\<open>ValueError\<close>, exactly when none of the seven fields is populated.
\<close>

theorem convertAttributeProto_spec:
  "convertAttributeProto a =
     (case first_populated a of Some v \<Rightarrow> Inr v | None \<Rightarrow> Inl ValueError) \<and>
   (convertAttributeProto a = Inl ValueError) = unpopulated a \<and>
   (\<forall>e. (convertAttributeProto a = Inl e) = (e = ValueError \<and> unpopulated a))"
  by (simp add: convert_first_populated[symmetric] convert_error_iff)

section \<open>Properties of the attribute dictionary\<close>

lemma from_onnx_loop_foldl:
  "list_all (\<lambda>a. \<not> unpopulated a) args \<Longrightarrow>
   from_onnx_loop d args =
     Inr (foldl (\<lambda>d a. AList.update (attr_name a) (projr (convertAttributeProto a)) d) d args)"
proof (induction args arbitrary: d)
  case Nil
  then show ?case by simp
next
  case (Cons a args)
  then obtain v where "convertAttributeProto a = Inr v"
    using convert_populated[of a] by auto
  with Cons show ?case
    by (simp add: bind_def)
qed

lemma from_onnx_loop_error:
  "list_ex unpopulated args \<Longrightarrow> from_onnx_loop d args = Inl ValueError"
proof (induction args arbitrary: d)
  case Nil
  then show ?case by simp
next
  case (Cons a args)
  show ?case
  proof (cases "convertAttributeProto a")
    case (Inl e)
    then have "e = ValueError" by (simp add: convert_error_iff)
    with Inl show ?thesis by (simp add: bind_def)
  next
    case (Inr v)
    then have "\<not> unpopulated a"
      using convert_error_iff[of a ValueError] by auto
    with Cons Inr show ?thesis by (simp add: bind_def)
  qed
qed

lemma map_of_foldl_update:
  "map_of (foldl (\<lambda>d a. AList.update (kf a) (vf a) d) d args) k =
     (case List.find (\<lambda>a. kf a = k) (rev args) of
        Some a \<Rightarrow> Some (vf a) | None \<Rightarrow> map_of d k)"
  by (induction args rule: rev_induct) (simp_all add: update_conv')

lemma keys_foldl_update:
  "fst ` set (foldl (\<lambda>d a. AList.update (kf a) (vf a) d) d args) = fst ` set d \<union> kf ` set args"
  by (induction args rule: rev_induct) (auto simp: dom_update)

lemma distinct_foldl_update:
  "distinct (map fst d) \<Longrightarrow>
   distinct (map fst (foldl (\<lambda>d a. AList.update (kf a) (vf a) d) d args))"
  by (induction args rule: rev_induct) (simp_all add: distinct_update)

lemma last_named_populated:
  assumes "list_all (\<lambda>a. \<not> unpopulated a) args"
  shows "last_named args k =
     (case List.find (\<lambda>a. attr_name a = k) (rev args) of
        Some a \<Rightarrow> Some (projr (convertAttributeProto a)) | None \<Rightarrow> None)"
proof (cases "List.find (\<lambda>a. attr_name a = k) (rev args)")
  case None
  then show ?thesis by (simp add: last_named_def)
next
  case (Some b)
  then obtain n where "n < length (rev args)" "b = rev args ! n"
    unfolding find_Some_iff by blast
  then have "b \<in> set (rev args)" using nth_mem by blast
  then have "b \<in> set args" by simp
  with assms have "\<not> unpopulated b" by (simp add: list_all_iff)
  then obtain v where "convertAttributeProto b = Inr v"
    using convert_populated[of b] by auto
  with Some show ?thesis by (simp add: last_named_def)
qed

lemma from_onnx_populated:
  assumes "list_all (\<lambda>a. \<not> unpopulated a) args"
  shows "\<exists>d. from_onnx args = Inr d \<and> distinct (keys d) \<and>
             set (keys d) = attr_name ` set args \<and> (\<forall>k. map_of d k = last_named args k)"
  using assms
  by (simp add: from_onnx_def from_onnx_loop_foldl keys_def distinct_foldl_update
        keys_foldl_update map_of_foldl_update last_named_populated split: option.splits)


text \<open>
  Claim C6 fails as it is stated, for every list of attributes: an attribute with no field
  populated (an \<^verbatim>\<open>axes\<close> attribute with an empty list of integers, say) makes
  \<^const>\<open>convertAttributeProto\<close> raise, the loop does not catch the exception, and no
  dictionary is returned.
\<close>

theorem from_onnx_counterexample:
  "from_onnx [int_attribute ''keepdims'' 1, ints_attribute ''axes'' []] = Inl ValueError"
  by (simp add: from_onnx_def bind_def convertAttributeProto_def int_attribute_def
        ints_attribute_def no_fields_def)

text \<open>
  Claim C6, amended. For every list of attributes each of which has at least one of the
  seven fields populated, \<^const>\<open>from_onnx\<close> returns a dictionary whose keys are the names
  of the attributes and whose value at a name is the object \<^const>\<open>convertAttributeProto\<close>
  produces for the last attribute of that name (a later attribute overwrites an earlier one
  of the same name); when some attribute has no field populated, \<^const>\<open>from_onnx\<close> raises
  \<^const>\<open>ValueError\<close>.
\<close>

theorem from_onnx_spec:
  "(list_all (\<lambda>a. \<not> unpopulated a) args \<longrightarrow>
      (\<exists>d. from_onnx args = Inr d \<and> distinct (keys d) \<and>
           set (keys d) = attr_name ` set args \<and> (\<forall>k. map_of d k = last_named args k))) \<and>
   (list_ex unpopulated args \<longrightarrow> from_onnx args = Inl ValueError)"
  using from_onnx_populated[of args]
  by (simp add: from_onnx_def from_onnx_loop_error)

theorem from_onnx_spec_witness:
  "list_all (\<lambda>a. \<not> unpopulated a)
     [float_attribute ''alpha'' 1, int_attribute ''axis'' 0, float_attribute ''alpha'' 2] \<and>
   (\<exists>d. from_onnx
          [float_attribute ''alpha'' 1, int_attribute ''axis'' 0, float_attribute ''alpha'' 2]
          = Inr d \<and>
        distinct (keys d) \<and> map_of d ''alpha'' = Some (PyFloat 2) \<and>
        map_of d ''axis'' = Some (PyInt 0))"
proof -
  let ?args = "[float_attribute ''alpha'' 1, int_attribute ''axis'' 0, float_attribute ''alpha'' 2]"
  have pop: "list_all (\<lambda>a. \<not> unpopulated a) ?args"
    by (simp add: unpopulated_def float_attribute_def int_attribute_def no_fields_def)
  have alpha: "last_named ?args ''alpha'' = Some (PyFloat 2)"
    by (simp add: last_named_def convertAttributeProto_def float_attribute_def
          int_attribute_def no_fields_def)
  have axis: "last_named ?args ''axis'' = Some (PyInt 0)"
    by (simp add: last_named_def convertAttributeProto_def float_attribute_def
          int_attribute_def no_fields_def)
  from from_onnx_spec[of ?args] pop obtain d where
    "from_onnx ?args = Inr d" "distinct (keys d)" "\<forall>k. map_of d k = last_named ?args k"
    by blast
  with pop alpha axis show ?thesis by auto
qed

section \<open>Properties of node construction\<close>




section \<open>Properties of the dispatch\<close>

lemma bind_Inr_iff: "(bind m g = Inr y) = (\<exists>v. m = Inr v \<and> g v = Inr y)"
  by (cases m) (simp_all add: bind_def)

lemma handle_trivial_single: "handle_trivial node d = Inr ops \<Longrightarrow> length ops = 1"
  by (auto simp: handle_trivial_def bind_Inr_iff Let_def)

lemma handle_p_relu_single: "handle_p_relu node d = Inr ops \<Longrightarrow> length ops = 1"
  by (auto simp: handle_p_relu_def bind_Inr_iff Let_def)

lemma handle_pad_single: "handle_pad node d = Inr ops \<Longrightarrow> length ops = 1"
  by (auto simp: handle_pad_def bind_Inr_iff Let_def)

lemma handle_random_normal_like_single:
  "handle_random_normal_like node d = Inr ops \<Longrightarrow> length ops = 1"
  by (auto simp: handle_random_normal_like_def bind_Inr_iff Let_def)

lemma handle_random_uniform_like_single:
  "handle_random_uniform_like node d = Inr ops \<Longrightarrow> length ops = 1"
  by (auto simp: handle_random_uniform_like_def bind_Inr_iff Let_def)

lemma handle_reshape_single: "handle_reshape node d = Inr ops \<Longrightarrow> length ops = 1"
  by (auto simp: handle_reshape_def bind_Inr_iff Let_def)

lemma handle_selu_single: "handle_selu node d = Inr ops \<Longrightarrow> length ops = 1"
  by (auto simp: handle_selu_def bind_Inr_iff Let_def)

lemma handle_slice_single: "handle_slice node d = Inr ops \<Longrightarrow> length ops = 1"
  by (auto simp: handle_slice_def bind_Inr_iff Let_def)

lemma handle_split_single: "handle_split node d = Inr ops \<Longrightarrow> length ops = 1"
  by (auto simp: handle_split_def bind_Inr_iff Let_def)

lemma handle_sub_single: "handle_sub node d = Inr ops \<Longrightarrow> length ops = 1"
  by (auto simp: handle_sub_def bind_Inr_iff Let_def)

lemma handle_sum_single: "handle_sum node d = Inr ops \<Longrightarrow> length ops = 1"
  by (auto simp: handle_sum_def bind_Inr_iff Let_def)

lemmas handler_single = handle_trivial_single handle_p_relu_single handle_pad_single
  handle_random_normal_like_single handle_random_uniform_like_single handle_reshape_single
  handle_selu_single handle_slice_single handle_split_single handle_sub_single handle_sum_single

lemma handlers_single:
  assumes "map_of handlers k = Some h" "h node d = Inr ops"
  shows "length ops = 1"
proof -
  from assms(1) have "(k, h) \<in> set handlers" by (rule map_of_SomeD)
  then have "h \<in> {handle_trivial, handle_p_relu, handle_pad, handle_random_normal_like,
      handle_random_uniform_like, handle_reshape, handle_selu, handle_slice, handle_split,
      handle_sub, handle_sum}"
    by (auto simp: handlers_def)
  with assms(2) show ?thesis
    by (auto dest: handler_single)
qed

lemma keys_map_of: "(k \<in> set (keys d)) = (map_of d k \<noteq> None)"
  by (simp add: keys_def map_of_eq_None_iff)

lemma dict_get_Some: "map_of d k = Some v \<Longrightarrow> dict_get d k = Inr v"
  by (simp add: dict_get_def)

lemma dispatch_trivial:
  "op_name_to_lower (op_type node) \<in> set (keys onnx_tf_op_map) \<Longrightarrow>
   onnx_node_to_tensorflow_op node d = bind (handle_trivial node d) (\<lambda>ops. Inr (Some ops))"
  by (simp add: onnx_node_to_tensorflow_op_def Let_def)

lemma dispatch_handler:
  "op_name_to_lower (op_type node) \<notin> set (keys onnx_tf_op_map) \<Longrightarrow>
   map_of handlers (''handle_'' @ op_name_to_lower (op_type node)) = Some h \<Longrightarrow>
   onnx_node_to_tensorflow_op node d = bind (h node d) (\<lambda>ops. Inr (Some ops))"
  by (simp add: onnx_node_to_tensorflow_op_def Let_def keys_map_of dict_get_Some bind_def)

lemma dispatch_none:
  "op_name_to_lower (op_type node) \<notin> set (keys onnx_tf_op_map) \<Longrightarrow>
   ''handle_'' @ op_name_to_lower (op_type node) \<notin> set (keys handlers) \<Longrightarrow>
   onnx_node_to_tensorflow_op node d = Inr None"
  by (simp add: onnx_node_to_tensorflow_op_def Let_def)

lemma dispatch_single:
  assumes "onnx_node_to_tensorflow_op node d = Inr (Some ops)"
  shows "length ops = 1"
proof (cases "op_name_to_lower (op_type node) \<in> set (keys onnx_tf_op_map)")
  case True
  with assms have "handle_trivial node d = Inr ops"
    by (auto simp: dispatch_trivial bind_Inr_iff)
  then show ?thesis by (rule handle_trivial_single)
next
  case False
  show ?thesis
  proof (cases "map_of handlers (''handle_'' @ op_name_to_lower (op_type node))")
    case None
    then have "''handle_'' @ op_name_to_lower (op_type node) \<notin> set (keys handlers)"
      by (simp add: keys_map_of)
    with False assms show ?thesis by (simp add: dispatch_none)
  next
    case (Some h)
    with False assms have "h node d = Inr ops"
      by (auto simp: dispatch_handler bind_Inr_iff)
    with Some show ?thesis by (rule handlers_single)
  qed
qed

lemma lower_MatMul: "op_name_to_lower ''MatMul'' = ''mat_mul''" by code_simp
lemma lower_Conv: "op_name_to_lower ''Conv'' = ''conv''" by code_simp
lemma lower_Relu: "op_name_to_lower ''Relu'' = ''relu''" by code_simp
lemma lower_Sum: "op_name_to_lower ''Sum'' = ''sum''" by code_simp

text \<open>
  Claim C8. For every node whose lowered operator type is neither a key of
  \<^const>\<open>onnx_tf_op_map\<close> nor the name of a handler after \<^verbatim>\<open>handle_\<close>,
  \<^const>\<open>onnx_node_to_tensorflow_op\<close> returns \<^verbatim>\<open>None\<close> and raises no exception.
\<close>

theorem unsupported_returns_None:
  assumes "op_name_to_lower (op_type node) \<notin> set (keys onnx_tf_op_map)"
    and "''handle_'' @ op_name_to_lower (op_type node) \<notin> set (keys handlers)"
  shows "onnx_node_to_tensorflow_op node input_dict = Inr None"
  using assms by (rule dispatch_none)

theorem unsupported_returns_None_witness:
  "op_name_to_lower (op_type (onnx_node ''MatMul'' [] [''a'', ''b''] [''y'']))
     \<notin> set (keys onnx_tf_op_map) \<and>
   ''handle_'' @ op_name_to_lower (op_type (onnx_node ''MatMul'' [] [''a'', ''b''] [''y'']))
     \<notin> set (keys handlers) \<and>
   onnx_node_to_tensorflow_op (onnx_node ''MatMul'' [] [''a'', ''b''] [''y''])
     [(''a'', scalar 1), (''b'', scalar 2)] = Inr None"
proof -
  have a: "op_name_to_lower (op_type (onnx_node ''MatMul'' [] [''a'', ''b''] [''y'']))
     \<notin> set (keys onnx_tf_op_map)"
    by (simp add: onnx_node_def lower_MatMul keys_def onnx_tf_op_map_def)
  have b: "''handle_'' @ op_name_to_lower (op_type (onnx_node ''MatMul'' [] [''a'', ''b''] [''y'']))
     \<notin> set (keys handlers)"
    by (simp add: onnx_node_def lower_MatMul keys_def handlers_def)
  show ?thesis using a b unsupported_returns_None[OF a b] by blast
qed

text \<open>
  Claim C1 fails as it is stated, for every node: a \<^verbatim>\<open>Conv\<close> node has no translation
  rule, and the result is \<^verbatim>\<open>None\<close>, not a list of invocations.
\<close>

theorem dispatch_counterexample:
  "onnx_node_to_tensorflow_op (onnx_node ''Conv'' [] [''x'', ''w''] [''y''])
     [(''x'', scalar 1), (''w'', scalar 2)] = Inr None"
  by (simp add: onnx_node_to_tensorflow_op_def onnx_node_def lower_Conv keys_def
        onnx_tf_op_map_def handlers_def)

text \<open>
  Claim C1, amended. The rule is selected by the lowered operator type:
  \<^const>\<open>handle_trivial\<close> when the lowered name is a key of \<^const>\<open>onnx_tf_op_map\<close>
  (this lookup comes first), otherwise the method \<^verbatim>\<open>handle_\<close> followed by the lowered name
  when there is one; the result is what the selected rule returns or raises, and a list
  that is returned has exactly one invocation. When there is no rule the result is
  \<^verbatim>\<open>None\<close>.
\<close>

theorem dispatch_spec:
  "(op_name_to_lower (op_type node) \<in> set (keys onnx_tf_op_map) \<longrightarrow>
      onnx_node_to_tensorflow_op node input_dict =
        bind (handle_trivial node input_dict) (\<lambda>ops. Inr (Some ops))) \<and>
   (op_name_to_lower (op_type node) \<notin> set (keys onnx_tf_op_map) \<longrightarrow>
      (\<forall>h. map_of handlers (''handle_'' @ op_name_to_lower (op_type node)) = Some h \<longrightarrow>
         onnx_node_to_tensorflow_op node input_dict =
           bind (h node input_dict) (\<lambda>ops. Inr (Some ops)))) \<and>
   (op_name_to_lower (op_type node) \<notin> set (keys onnx_tf_op_map) \<longrightarrow>
    map_of handlers (''handle_'' @ op_name_to_lower (op_type node)) = None \<longrightarrow>
      onnx_node_to_tensorflow_op node input_dict = Inr None) \<and>
   (\<forall>ops. onnx_node_to_tensorflow_op node input_dict = Inr (Some ops) \<longrightarrow> length ops = 1)"
  by (auto simp: dispatch_trivial dispatch_handler dispatch_none keys_map_of dest: dispatch_single)

lemmas eval_defs = bind_def dict_get_def list_get_def py_dict_def keys_def input_at_def
  onnx_node_def scalar_def Let_def

lemma handle_trivial_Relu: "handle_trivial (onnx_node ''Relu'' [] [''x''] [''y'']) [(''x'', scalar 1)] = Inr [Call tf_nn_relu [scalar 1] []]"
  by (simp add: handle_trivial_def eval_defs lower_Relu onnx_tf_op_map_def)

lemma handle_sum_example: "handle_sum (onnx_node ''Sum'' [] [''x'', ''y''] [''z'']) [(''x'', scalar 1), (''y'', scalar 2)]
  = Inr [Call tf_reduce_sum [Call tf_stack [TensorList [scalar 1, scalar 2]] []] [(''axis'', PyConst (PyInt 0))]]"
  by (simp add: handle_sum_def eval_defs)

theorem dispatch_spec_witness:
  "op_name_to_lower (op_type (onnx_node ''Relu'' [] [''x''] [''y''])) \<in> set (keys onnx_tf_op_map) \<and>
   onnx_node_to_tensorflow_op (onnx_node ''Relu'' [] [''x''] [''y'']) [(''x'', scalar 1)]
     = Inr (Some [Call tf_nn_relu [scalar 1] []]) \<and>
   length [Call tf_nn_relu [scalar 1] []] = 1 \<and>
   op_name_to_lower (op_type (onnx_node ''Sum'' [] [''x'', ''y''] [''z''])) \<notin> set (keys onnx_tf_op_map) \<and>
   map_of handlers (''handle_'' @ op_name_to_lower (op_type (onnx_node ''Sum'' [] [''x'', ''y''] [''z''])))
     = Some handle_sum \<and>
   onnx_node_to_tensorflow_op (onnx_node ''Sum'' [] [''x'', ''y''] [''z''])
     [(''x'', scalar 1), (''y'', scalar 2)]
     = Inr (Some [Call tf_reduce_sum [Call tf_stack [TensorList [scalar 1, scalar 2]] []]
                    [(''axis'', PyConst (PyInt 0))]])"
proof -
  let ?relu = "onnx_node ''Relu'' [] [''x''] [''y'']"
  let ?sum = "onnx_node ''Sum'' [] [''x'', ''y''] [''z'']"
  have a: "op_name_to_lower (op_type ?relu) \<in> set (keys onnx_tf_op_map)"
    by (simp add: onnx_node_def lower_Relu keys_def onnx_tf_op_map_def)
  have b: "op_name_to_lower (op_type ?sum) \<notin> set (keys onnx_tf_op_map)"
    by (simp add: onnx_node_def lower_Sum keys_def onnx_tf_op_map_def)
  have c: "map_of handlers (''handle_'' @ op_name_to_lower (op_type ?sum)) = Some handle_sum"
    by (simp add: onnx_node_def lower_Sum handlers_def)
  have r: "onnx_node_to_tensorflow_op ?relu [(''x'', scalar 1)]
     = Inr (Some [Call tf_nn_relu [scalar 1] []])"
    using dispatch_spec[of ?relu "[(''x'', scalar 1)]"] a by (simp add: handle_trivial_Relu bind_def)
  have s: "onnx_node_to_tensorflow_op ?sum [(''x'', scalar 1), (''y'', scalar 2)]
     = Inr (Some [Call tf_reduce_sum [Call tf_stack [TensorList [scalar 1, scalar 2]] []]
                    [(''axis'', PyConst (PyInt 0))]])"
    using dispatch_spec[of ?sum "[(''x'', scalar 1), (''y'', scalar 2)]"] b c
    by (simp add: handle_sum_example bind_def)
  have l: "length [Call tf_nn_relu [scalar 1] []] = 1"
    using dispatch_spec[of ?relu "[(''x'', scalar 1)]"] r by blast
  show ?thesis using a b c r s l by blast
qed
section \<open>Properties of the trivial rule\<close>

lemma map_try_Inr:
  "(\<forall>x\<in>set xs. g x = Inr (h x)) \<Longrightarrow> map_try g xs = Inr (map h xs)"
  by (induction xs) (simp_all add: bind_def)

lemma map_try_fst:
  "(\<forall>p\<in>set ps. g (fst p) = Inr (h p)) \<Longrightarrow> map_try g (map fst ps) = Inr (map h ps)"
  by (induction ps) (simp_all add: bind_def)

lemma update_fresh: "k \<notin> fst ` set d \<Longrightarrow> AList.update k v d = d @ [(k, v)]"
  by (induction d) auto

lemma foldl_update_distinct:
  "distinct (map fst (d @ ps)) \<Longrightarrow> foldl (\<lambda>d (k, v). AList.update k v d) d ps = d @ ps"
proof (induction ps arbitrary: d)
  case Nil
  then show ?case by simp
next
  case (Cons p ps)
  obtain k v where p: "p = (k, v)" by (cases p)
  from Cons.prems p have "k \<notin> fst ` set d" by auto
  then have u: "AList.update k v d = d @ [(k, v)]" by (rule update_fresh)
  from Cons.prems p have "distinct (map fst ((d @ [(k, v)]) @ ps))" by simp
  from Cons.IH[OF this] u p show ?case by simp
qed

lemma py_dict_distinct: "distinct (map fst ps) \<Longrightarrow> py_dict ps = ps"
  using foldl_update_distinct[of "[]" ps] by (simp add: py_dict_def)

lemma distinct_map_comp: "distinct (map (f \<circ> g) xs) \<Longrightarrow> distinct (map g xs)"
  using distinct_map[of f "map g xs"] by simp

lemma tf_attr_name_alt:
  "(if x \<in> set (keys onnx_tf_attribute_map) then the (map_of onnx_tf_attribute_map x) else x)
   = tf_attr_name x"
  by (cases "map_of onnx_tf_attribute_map x") (simp_all add: tf_attr_name_def keys_map_of)

lemma translate_step:
  assumes "distinct (map fst A)" "(k, v) \<in> set A" "tf_attr_value k v = Inr w"
  shows "(if k \<in> set (keys attr_translator)
          then bind (dict_get attr_translator k) (\<lambda>translate.
               bind (dict_get A k) (\<lambda>v. bind (translate v) (\<lambda>w. Inr (k, w))))
          else bind (dict_get A k) (\<lambda>v. Inr (k, v))) = Inr (k, w)"
proof -
  from assms(1,2) have "map_of A k = Some v" by (rule map_of_is_SomeI)
  then have g: "dict_get A k = Inr v" by (rule dict_get_Some)
  show ?thesis using assms(3) g
    by (auto simp: keys_def attr_translator_def dict_get_def[of "[_, _]"] bind_def
          tf_attr_value_def split: if_splits)
qed

lemma bind_Inr: "bind (Inr v) g = g v"
  by (simp add: bind_def)

lemma map_of_map_key: "x \<in> set xs \<Longrightarrow> map_of (map (\<lambda>x. (x, f x)) xs) x = Some (f x)"
  by (induction xs) auto

lemma tf_attr_value_total:
  assumes "\<forall>v. map_of A ''dtype'' = Some v \<longrightarrow> (\<exists>ty. tensor_type_to_tf_type_getitem v = Inr ty)"
    and "distinct (map fst A)" "(k, v) \<in> set A"
  shows "tf_attr_value k v = Inr (projr (tf_attr_value k v))"
proof (cases "k = ''dtype''")
  case True
  from assms(2,3) have "map_of A k = Some v" by (rule map_of_is_SomeI)
  with True assms(1) obtain ty where "tensor_type_to_tf_type_getitem v = Inr ty" by auto
  with True show ?thesis by (simp add: tf_attr_value_def)
next
  case False
  then show ?thesis by (simp add: tf_attr_value_def)
qed

lemma handle_trivial_returns:
  assumes dist: "distinct (map (tf_attr_name \<circ> fst) (attrs node))"
    and dtype: "\<forall>v. map_of (attrs node) ''dtype'' = Some v \<longrightarrow>
                  (\<exists>ty. tensor_type_to_tf_type_getitem v = Inr ty)"
    and ins: "set (inputs node) \<subseteq> set (keys input_dict)"
    and op: "op_name_to_lower (op_type node) \<in> set (keys onnx_tf_op_map)"
  shows "handle_trivial node input_dict =
     Inr [Call (the (map_of onnx_tf_op_map (op_name_to_lower (op_type node))))
            (map (the \<circ> map_of input_dict) (inputs node))
            (map (\<lambda>(k, v). (tf_attr_name k, PyConst (projr (tf_attr_value k v)))) (attrs node))]"
proof -
  let ?A = "attrs node"
  let ?val = "\<lambda>p. projr (tf_attr_value (fst p) (snd p))"
  have dk: "distinct (map fst ?A)"
    using dist by (rule distinct_map_comp)
  have t1: "map_try
             (\<lambda>x. if x \<in> set (keys attr_translator)
                  then bind (dict_get attr_translator x) (\<lambda>translate.
                       bind (dict_get ?A x) (\<lambda>v.
                       bind (translate v) (\<lambda>w. Inr (x, w))))
                  else bind (dict_get ?A x) (\<lambda>v. Inr (x, v)))
             (keys ?A) = Inr (map (\<lambda>p. (fst p, ?val p)) ?A)"
    unfolding keys_def[of ?A]
  proof (rule map_try_fst, rule ballI)
    fix p assume p: "p \<in> set ?A"
    then have "(fst p, snd p) \<in> set ?A" by simp
    from translate_step[OF dk this tf_attr_value_total[OF dtype dk this]]
    show "(if fst p \<in> set (keys attr_translator)
          then bind (dict_get attr_translator (fst p)) (\<lambda>translate.
               bind (dict_get ?A (fst p)) (\<lambda>v. bind (translate v) (\<lambda>w. Inr (fst p, w))))
          else bind (dict_get ?A (fst p)) (\<lambda>v. Inr (fst p, v))) = Inr (fst p, ?val p)" .
  qed
  have a1: "py_dict (map (\<lambda>p. (fst p, ?val p)) ?A) = map (\<lambda>p. (fst p, ?val p)) ?A"
    using dk by (intro py_dict_distinct) (simp add: comp_def)
  have m0: "py_dict (map (\<lambda>x. (x, x)) (keys ?A)) = map (\<lambda>x. (x, x)) (keys ?A)"
    using dk by (intro py_dict_distinct) (simp add: comp_def keys_def)
  have k0: "keys (map (\<lambda>x. (x, x)) (keys ?A)) = keys ?A"
    by (simp add: keys_def comp_def)
  have m1: "py_dict (map (\<lambda>x. (x, tf_attr_name x)) (keys ?A))
            = map (\<lambda>x. (x, tf_attr_name x)) (keys ?A)"
    using dk by (intro py_dict_distinct) (simp add: comp_def keys_def)
  have t2: "map_try (\<lambda>(x, y). bind (dict_get (map (\<lambda>x. (x, tf_attr_name x)) (keys ?A)) x)
                                  (\<lambda>x'. Inr (x', y)))
              (map (\<lambda>p. (fst p, ?val p)) ?A)
            = Inr (map (\<lambda>q. (tf_attr_name (fst q), snd q)) (map (\<lambda>p. (fst p, ?val p)) ?A))"
  proof (rule map_try_Inr, rule ballI)
    fix q assume "q \<in> set (map (\<lambda>p. (fst p, ?val p)) ?A)"
    then have "fst q \<in> set (keys ?A)" by (force simp: keys_def)
    then have "dict_get (map (\<lambda>x. (x, tf_attr_name x)) (keys ?A)) (fst q) = Inr (tf_attr_name (fst q))"
      by (simp add: dict_get_def map_of_map_key)
    then show "(case q of (x, y) \<Rightarrow> bind (dict_get (map (\<lambda>x. (x, tf_attr_name x)) (keys ?A)) x)
                                  (\<lambda>x'. Inr (x', y))) = Inr (tf_attr_name (fst q), snd q)"
      by (cases q) (simp add: bind_def)
  qed
  have a2: "py_dict (map (\<lambda>q. (tf_attr_name (fst q), snd q)) (map (\<lambda>p. (fst p, ?val p)) ?A))
          = map (\<lambda>p. (tf_attr_name (fst p), ?val p)) ?A"
    using dist by (subst py_dict_distinct) (simp_all add: comp_def)
  have t3: "map_try (dict_get input_dict) (inputs node)
          = Inr (map (the \<circ> map_of input_dict) (inputs node))"
  proof (rule map_try_Inr, rule ballI)
    fix a assume "a \<in> set (inputs node)"
    with ins have "map_of input_dict a \<noteq> None" by (auto simp: keys_map_of)
    then show "dict_get input_dict a = Inr ((the \<circ> map_of input_dict) a)"
      by (auto simp: dict_get_def)
  qed
  have t4: "dict_get onnx_tf_op_map (op_name_to_lower (op_type node))
          = Inr (the (map_of onnx_tf_op_map (op_name_to_lower (op_type node))))"
    using op by (auto simp: dict_get_def keys_map_of)
  have e: "map (\<lambda>(k, v). (k, PyConst v)) (map (\<lambda>p. (tf_attr_name (fst p), ?val p)) ?A)
         = map (\<lambda>(k, v). (tf_attr_name k, PyConst (projr (tf_attr_value k v)))) ?A"
    by (simp add: case_prod_beta comp_def)
  show ?thesis
    unfolding handle_trivial_def
    by (simp only: t1 bind_Inr Let_def a1 m0 k0 tf_attr_name_alt m1 t2 a2 t3 t4 e)
qed

lemma lower_RandomNormal: "op_name_to_lower ''RandomNormal'' = ''random_normal''" by code_simp
lemma lower_ReduceSum: "op_name_to_lower ''ReduceSum'' = ''reduce_sum''" by code_simp

text \<open>
  Claim C2 fails as it is stated, for every node handled by \<^const>\<open>handle_trivial\<close>.
  When two attributes are passed under the same TensorFlow name (\<^verbatim>\<open>scale\<close> is renamed to
  \<^verbatim>\<open>stddev\<close>, next to an attribute \<^verbatim>\<open>stddev\<close>), the dictionary of keyword arguments
  keeps one of them: in one order of the attributes the attribute \<^verbatim>\<open>stddev\<close> does not keep
  its value, in the other the value of \<^verbatim>\<open>scale\<close> is not passed at all. And a \<^verbatim>\<open>dtype\<close>
  that is not a key of \<^const>\<open>tensor_type_to_tf_type\<close> (12, \<^verbatim>\<open>UINT32\<close>) raises
  \<^const>\<open>KeyError\<close>: no operator is called.
\<close>

theorem handle_trivial_counterexample:
  "handle_trivial
     (onnx_node ''RandomNormal'' [(''stddev'', PyFloat 2), (''scale'', PyFloat 1)] [] [''y'']) []
     = Inr [Call tf_random_normal [] [(''stddev'', PyConst (PyFloat 1))]] \<and>
   handle_trivial
     (onnx_node ''RandomNormal'' [(''scale'', PyFloat 1), (''stddev'', PyFloat 2)] [] [''y'']) []
     = Inr [Call tf_random_normal [] [(''stddev'', PyConst (PyFloat 2))]] \<and>
   handle_trivial (onnx_node ''RandomNormal'' [(''dtype'', PyInt 12)] [] [''y'']) []
     = Inl KeyError"
  by (simp add: handle_trivial_def eval_defs lower_RandomNormal onnx_tf_op_map_def
        onnx_tf_attribute_map_def attr_translator_def tensor_type_to_tf_type_getitem_def
        tensor_type_to_tf_type_def TensorProto_FLOAT_def TensorProto_UINT8_def
        TensorProto_INT8_def TensorProto_UINT16_def TensorProto_INT16_def TensorProto_INT32_def
        TensorProto_INT64_def TensorProto_BOOL_def TensorProto_FLOAT16_def
        TensorProto_DOUBLE_def TensorProto_COMPLEX64_def TensorProto_COMPLEX128_def)

text \<open>
  Claim C2, amended. For every node handled by \<^const>\<open>handle_trivial\<close> whose attributes
  are passed under pairwise different TensorFlow names, whose \<^verbatim>\<open>dtype\<close> attribute (if it
  has one) is a key of \<^const>\<open>tensor_type_to_tf_type\<close> and whose inputs are all keys of
  the input dictionary: the rule returns one invocation of the mapped operator, with the
  inputs of the node in order as positional arguments and with one keyword argument for each
  attribute, in order. The value of \<^verbatim>\<open>dtype\<close> is mapped through
  \<^const>\<open>tensor_type_to_tf_type\<close>, the value of \<^verbatim>\<open>keepdims\<close> is converted to a Boolean,
  every other value is unchanged; a name that is a key of \<^const>\<open>onnx_tf_attribute_map\<close>
  is replaced by the mapped name (\<^verbatim>\<open>scale\<close> by \<^verbatim>\<open>stddev\<close>, \<^verbatim>\<open>axes\<close> by \<^verbatim>\<open>axis\<close>,
  \<^verbatim>\<open>keepdims\<close> by \<^verbatim>\<open>keep_dims\<close>), every other name is unchanged.
\<close>

theorem handle_trivial_spec:
  assumes "distinct (map (tf_attr_name \<circ> fst) (attrs node))"
    and "\<forall>v. map_of (attrs node) ''dtype'' = Some v \<longrightarrow>
           (\<exists>ty. tensor_type_to_tf_type_getitem v = Inr ty)"
    and "set (inputs node) \<subseteq> set (keys input_dict)"
    and "op_name_to_lower (op_type node) \<in> set (keys onnx_tf_op_map)"
  shows "handle_trivial node input_dict =
     Inr [Call (the (map_of onnx_tf_op_map (op_name_to_lower (op_type node))))
            (map (the \<circ> map_of input_dict) (inputs node))
            (map (\<lambda>(k, v). (tf_attr_name k, PyConst (projr (tf_attr_value k v)))) (attrs node))] \<and>
     (\<forall>v. tf_attr_value ''dtype'' v = tensor_type_to_tf_type_getitem v) \<and>
     (\<forall>v. tf_attr_value ''keepdims'' v = Inr (PyBool (py_bool v))) \<and>
     (\<forall>k v. k \<noteq> ''dtype'' \<and> k \<noteq> ''keepdims'' \<longrightarrow> tf_attr_value k v = Inr v) \<and>
     (\<forall>k k'. map_of onnx_tf_attribute_map k = Some k' \<longrightarrow> tf_attr_name k = k') \<and>
     (\<forall>k. k \<notin> set (keys onnx_tf_attribute_map) \<longrightarrow> tf_attr_name k = k) \<and>
     tf_attr_name ''scale'' = ''stddev'' \<and> tf_attr_name ''axes'' = ''axis'' \<and>
     tf_attr_name ''keepdims'' = ''keep_dims''"
proof -
  have "tf_attr_name ''scale'' = ''stddev'' \<and> tf_attr_name ''axes'' = ''axis'' \<and>
        tf_attr_name ''keepdims'' = ''keep_dims''"
    by (simp add: tf_attr_name_def onnx_tf_attribute_map_def)
  moreover have "\<forall>k. k \<notin> set (keys onnx_tf_attribute_map) \<longrightarrow> tf_attr_name k = k"
    by (simp add: keys_map_of tf_attr_name_def)
  moreover have "\<forall>k k'. map_of onnx_tf_attribute_map k = Some k' \<longrightarrow> tf_attr_name k = k'"
    by (simp add: tf_attr_name_def)
  moreover have "\<forall>k v. k \<noteq> ''dtype'' \<and> k \<noteq> ''keepdims'' \<longrightarrow> tf_attr_value k v = Inr v"
    by (simp add: tf_attr_value_def)
  moreover have "\<forall>v. tf_attr_value ''keepdims'' v = Inr (PyBool (py_bool v))"
    by (simp add: tf_attr_value_def)
  moreover have "\<forall>v. tf_attr_value ''dtype'' v = tensor_type_to_tf_type_getitem v"
    by (simp add: tf_attr_value_def)
  ultimately show ?thesis
    using handle_trivial_returns[OF assms] by blast
qed

lemmas table_defs = tensor_type_to_tf_type_getitem_def
        tensor_type_to_tf_type_def TensorProto_FLOAT_def TensorProto_UINT8_def
        TensorProto_INT8_def TensorProto_UINT16_def TensorProto_INT16_def TensorProto_INT32_def
        TensorProto_INT64_def TensorProto_BOOL_def TensorProto_FLOAT16_def
        TensorProto_DOUBLE_def TensorProto_COMPLEX64_def TensorProto_COMPLEX128_def

theorem handle_trivial_spec_witness:
  "distinct (map (tf_attr_name \<circ> fst)
     (attrs (onnx_node ''ReduceSum''
        [(''axes'', PyList [PyInt 0]), (''keepdims'', PyInt 0), (''dtype'', PyInt 1)]
        [''x''] [''y'']))) \<and>
   tensor_type_to_tf_type_getitem (PyInt 1) = Inr (PyDType tf_float32) \<and>
   set (inputs (onnx_node ''ReduceSum''
        [(''axes'', PyList [PyInt 0]), (''keepdims'', PyInt 0), (''dtype'', PyInt 1)]
        [''x''] [''y''])) \<subseteq> set (keys [(''x'', scalar 1)]) \<and>
   op_name_to_lower (op_type (onnx_node ''ReduceSum''
        [(''axes'', PyList [PyInt 0]), (''keepdims'', PyInt 0), (''dtype'', PyInt 1)]
        [''x''] [''y''])) \<in> set (keys onnx_tf_op_map) \<and>
   handle_trivial
     (onnx_node ''ReduceSum''
        [(''axes'', PyList [PyInt 0]), (''keepdims'', PyInt 0), (''dtype'', PyInt 1)]
        [''x''] [''y''])
     [(''x'', scalar 1)]
   = Inr [Call tf_reduce_sum [scalar 1]
            [(''axis'', PyConst (PyList [PyInt 0])), (''keep_dims'', PyConst (PyBool False)),
             (''dtype'', PyConst (PyDType tf_float32))]]"
proof -
  let ?node = "onnx_node ''ReduceSum''
        [(''axes'', PyList [PyInt 0]), (''keepdims'', PyInt 0), (''dtype'', PyInt 1)]
        [''x''] [''y'']"
  let ?d = "[(''x'', scalar 1)]"
  have g: "tensor_type_to_tf_type_getitem (PyInt 1) = Inr (PyDType tf_float32)"
    by (simp add: table_defs bind_def dict_get_def)
  have a: "distinct (map (tf_attr_name \<circ> fst) (attrs ?node))"
    by (simp add: onnx_node_def tf_attr_name_def onnx_tf_attribute_map_def)
  have b: "\<forall>v. map_of (attrs ?node) ''dtype'' = Some v \<longrightarrow>
           (\<exists>ty. tensor_type_to_tf_type_getitem v = Inr ty)"
    by (simp add: onnx_node_def g)
  have c: "set (inputs ?node) \<subseteq> set (keys ?d)"
    by (simp add: onnx_node_def keys_def)
  have d: "op_name_to_lower (op_type ?node) \<in> set (keys onnx_tf_op_map)"
    by (simp add: onnx_node_def lower_ReduceSum keys_def onnx_tf_op_map_def)
  have "handle_trivial ?node ?d =
     Inr [Call (the (map_of onnx_tf_op_map (op_name_to_lower (op_type ?node))))
            (map (the \<circ> map_of ?d) (inputs ?node))
            (map (\<lambda>(k, v). (tf_attr_name k, PyConst (projr (tf_attr_value k v)))) (attrs ?node))]"
    using handle_trivial_spec[OF a b c d] by blast
  then have "handle_trivial ?node ?d
     = Inr [Call tf_reduce_sum [scalar 1]
            [(''axis'', PyConst (PyList [PyInt 0])), (''keep_dims'', PyConst (PyBool False)),
             (''dtype'', PyConst (PyDType tf_float32))]]"
    by (simp add: onnx_node_def lower_ReduceSum onnx_tf_op_map_def tf_attr_name_def
          onnx_tf_attribute_map_def tf_attr_value_def g py_bool_def)
  with a g c d show ?thesis by blast
qed
section \<open>Properties of running a node\<close>











section \<open>Properties of the PRelu rule\<close>

lemma p_relu_formula: "relu x + slope * (x - \<bar>x\<bar>) * 0.5 = p_relu x slope"
  by (simp add: relu_def p_relu_def max_def abs_if)

lemma handle_p_relu_expr:
  assumes "inputs node = a # b # rest" "map_of input_dict a = Some ex"
    "map_of input_dict b = Some es"
  shows "handle_p_relu node input_dict =
     Inr [Call tf_add
            [Call tf_nn_relu [ex] [],
             Call tf_multiply
               [Call tf_multiply [es, Call tf_subtract [ex, Call tf_abs [ex] []] []] [],
                PyConst (PyFloat 0.5)] []] []]"
  using assms
  by (simp add: handle_p_relu_def input_at_def list_get_def dict_get_def bind_def)

lemma tf_eval_p_relu:
  assumes "tf_eval ex = VTensor (NdArray [] [x])" "tf_eval es = VTensor (NdArray [] [slope])"
  shows "tf_eval (Call tf_add
            [Call tf_nn_relu [ex] [],
             Call tf_multiply
               [Call tf_multiply [es, Call tf_subtract [ex, Call tf_abs [ex] []] []] [],
                PyConst (PyFloat 0.5)] []] [])
        = VTensor (NdArray [] [relu x + slope * (x - \<bar>x\<bar>) * 0.5])"
  using assms
  by (simp add: first_error_def apply_function_def elementwise_def elementwise2_def
        as_tensor_def)

text \<open>
  Claim C10. In exact arithmetic, the formula of \<^const>\<open>handle_p_relu\<close> is the piecewise
  definition: for all numbers \<open>x\<close> and \<open>slope\<close>, \<open>relu x + slope * (x - \<bar>x\<bar>) / 2\<close> is
  \<open>x\<close> when \<open>0 \<le> x\<close> and \<open>slope * x\<close> when \<open>x < 0\<close>; and the invocation that the
  rule builds for scalar inputs \<open>x\<close> and \<open>slope\<close> has that value.
\<close>

theorem p_relu_spec:
  "relu x + slope * (x - \<bar>x\<bar>) / 2 = (if 0 \<le> x then x else slope * x) \<and>
   (inputs node = a # b # rest \<and> map_of input_dict a = Some ex \<and>
    map_of input_dict b = Some es \<and> tf_eval ex = VTensor (NdArray [] [x]) \<and>
    tf_eval es = VTensor (NdArray [] [slope]) \<longrightarrow>
    (\<exists>e. handle_p_relu node input_dict = Inr [e] \<and>
         tf_eval e = VTensor (NdArray [] [if 0 \<le> x then x else slope * x])))"
proof (intro conjI impI)
  show f: "relu x + slope * (x - \<bar>x\<bar>) / 2 = (if 0 \<le> x then x else slope * x)"
    using p_relu_formula[of x slope] by (simp add: p_relu_def)
  assume h: "inputs node = a # b # rest \<and> map_of input_dict a = Some ex \<and>
    map_of input_dict b = Some es \<and> tf_eval ex = VTensor (NdArray [] [x]) \<and>
    tf_eval es = VTensor (NdArray [] [slope])"
  then have 1: "handle_p_relu node input_dict =
     Inr [Call tf_add
            [Call tf_nn_relu [ex] [],
             Call tf_multiply
               [Call tf_multiply [es, Call tf_subtract [ex, Call tf_abs [ex] []] []] [],
                PyConst (PyFloat 0.5)] []] []]"
    using handle_p_relu_expr by blast
  from h have "tf_eval (Call tf_add
            [Call tf_nn_relu [ex] [],
             Call tf_multiply
               [Call tf_multiply [es, Call tf_subtract [ex, Call tf_abs [ex] []] []] [],
                PyConst (PyFloat 0.5)] []] [])
        = VTensor (NdArray [] [relu x + slope * (x - \<bar>x\<bar>) * 0.5])"
    using tf_eval_p_relu by blast
  then have 2: "tf_eval (Call tf_add
            [Call tf_nn_relu [ex] [],
             Call tf_multiply
               [Call tf_multiply [es, Call tf_subtract [ex, Call tf_abs [ex] []] []] [],
                PyConst (PyFloat 0.5)] []] [])
        = VTensor (NdArray [] [if 0 \<le> x then x else slope * x])"
    using p_relu_formula[of x slope] by (simp add: p_relu_def)
  from 1 2 show "\<exists>e. handle_p_relu node input_dict = Inr [e] \<and>
         tf_eval e = VTensor (NdArray [] [if 0 \<le> x then x else slope * x])"
    by blast
qed

theorem p_relu_spec_witness:
  "relu (- 3) + 2 * (- 3 - \<bar>- 3 :: real\<bar>) / 2 = - 6 \<and>
   inputs (onnx_node ''PRelu'' [] [''x'', ''slope''] [''y'']) = ''x'' # ''slope'' # [] \<and>
   tf_eval (scalar (- 3)) = VTensor (NdArray [] [- 3]) \<and>
   tf_eval (scalar 2) = VTensor (NdArray [] [2]) \<and>
   (\<exists>e. handle_p_relu (onnx_node ''PRelu'' [] [''x'', ''slope''] [''y''])
          [(''x'', scalar (- 3)), (''slope'', scalar 2)] = Inr [e] \<and>
        tf_eval e = VTensor (NdArray [] [- 6]))"
proof -
  let ?node = "onnx_node ''PRelu'' [] [''x'', ''slope''] [''y'']"
  let ?d = "[(''x'', scalar (- 3)), (''slope'', scalar 2)]"
  have i: "inputs ?node = ''x'' # ''slope'' # []" by (simp add: onnx_node_def)
  have a: "map_of ?d ''x'' = Some (scalar (- 3))" by simp
  have b: "map_of ?d ''slope'' = Some (scalar 2)" by simp
  have x: "tf_eval (scalar (- 3)) = VTensor (NdArray [] [- 3])"
    by (simp add: scalar_def first_error_def apply_function_def as_tensor_def)
  have s: "tf_eval (scalar 2) = VTensor (NdArray [] [2])"
    by (simp add: scalar_def first_error_def apply_function_def as_tensor_def)
  note t = p_relu_spec[of "- 3" 2 ?node "''x''" "''slope''" "[]" ?d "scalar (- 3)" "scalar 2"]
  have 1: "relu (- 3) + 2 * (- 3 - \<bar>- 3 :: real\<bar>) / 2 = - 6"
    using conjunct1[OF t] by simp
  have 2: "\<exists>e. handle_p_relu ?node ?d = Inr [e] \<and> tf_eval e = VTensor (NdArray [] [- 6])"
    using conjunct2[OF t] i a b x s by simp
  from 1 2 i x s show ?thesis by blast
qed

section \<open>Properties of the Sum rule\<close>




















end
